theory Spec2Isabelle
  imports Main "HOL-Library.Sublist"
begin

section \<open>JavaScript strings\<close>

text \<open>
  A JavaScript string is modelled as a \<^typ>\<open>string\<close>: each \<^typ>\<open>char\<close> stands for one
  UTF-16 code unit in the range 0..255. An optional (or nullable) string field is a
  \<^typ>\<open>string option\<close>; \<open>None\<close> stands for \<open>undefined\<close> and \<open>null\<close> alike, which the
  handlers never tell apart.
\<close>

text \<open>The white space and line terminators of ECMAScript that lie in the range 0..255:
  TAB, LF, VT, FF, CR, SP and NBSP.\<close>

definition isWhiteSpace :: "char \<Rightarrow> bool" where
  "isWhiteSpace c = (c \<in> set [CHR 0x09, CHR 0x0A, CHR 0x0B, CHR 0x0C, CHR 0x0D, CHR 0x20, CHR 0xA0])"

text \<open>\<open>String.prototype.trim\<close>.\<close>

definition trim :: "string \<Rightarrow> string" where
  "trim s = rev (dropWhile isWhiteSpace (rev (dropWhile isWhiteSpace s)))"

text \<open>Truthiness of an optional string: \<open>undefined\<close>, \<open>null\<close> and \<open>""\<close> are falsy.\<close>

fun truthy :: "string option \<Rightarrow> bool" where
  "truthy None = False"
| "truthy (Some s) = (s \<noteq> [])"

text \<open>\<open>String.prototype.startsWith\<close> and \<open>String.prototype.includes\<close> (receiver first).\<close>

definition startsWith :: "string \<Rightarrow> string \<Rightarrow> bool" where
  "startsWith s p = prefix p s"

fun includesStr :: "string \<Rightarrow> string \<Rightarrow> bool" where
  "includesStr [] p = (p = [])"
| "includesStr (c # cs) p = (prefix p (c # cs) \<or> includesStr cs p)"

text \<open>\<open>String.prototype.toLowerCase\<close> on code units 0..255: the letters A-Z and the Latin-1
  capitals (0xC0-0xDE, without the multiplication sign 0xD7) move up by 32.\<close>

definition lowerChar :: "char \<Rightarrow> char" where
  "lowerChar c =
     (let n = (of_char c :: nat)
      in if (65 \<le> n \<and> n \<le> 90) \<or> (192 \<le> n \<and> n \<le> 222 \<and> n \<noteq> 215)
         then char_of (n + 32) else c)"

definition toLowerCase :: "string \<Rightarrow> string" where
  "toLowerCase s = map lowerChar s"

text \<open>The number of positions of \<open>s\<close> at which the literal pattern \<open>p\<close> occurs.\<close>

fun occurrences :: "string \<Rightarrow> string \<Rightarrow> nat" where
  "occurrences p [] = 0"
| "occurrences p (c # cs) = (if prefix p (c # cs) then 1 else 0) + occurrences p cs"

section \<open>Markdown deck builder\<close>

text \<open>The objects of the \<open>slides\<close> array and the input of \<open>build_complete_presentation\<close>,
  as the tool's input schema declares them.\<close>

record slide =
  layout :: "string option"
  title :: "string option"
  content :: "string option"
  code :: "string option"
  codeLanguage :: "string option"

record build_input =
  name :: string
  presentation_title :: string
  slides :: "slide list"
  theme :: "string option"
  author :: "string option"

text \<open>\<open>slide.layout && slide.layout.trim().length > 0 ? slide.layout : dflt\<close>\<close>

definition layoutOr :: "string option \<Rightarrow> string \<Rightarrow> string" where
  "layoutOr l dflt =
     (case l of
        None \<Rightarrow> dflt
      | Some s \<Rightarrow> if s \<noteq> [] \<and> length (trim s) > 0 then s else dflt)"

text \<open>The header of the first slide: presentation metadata together with the layout.\<close>

definition firstSlideHeader :: "build_input \<Rightarrow> slide \<Rightarrow> string" where
  "firstSlideHeader input sl =
     (let h = ''---\<newline>'';
          firstLayout = layoutOr (layout sl) ''cover'';
          h = h @ ''layout: '' @ firstLayout @ ''\<newline>'';
          themeValue = (case theme input of
                          None \<Rightarrow> None
                        | Some t \<Rightarrow> if length (trim t) > 0 then Some t else None);
          h = (case themeValue of
                 None \<Rightarrow> h
               | Some t \<Rightarrow> if t \<noteq> [] then h @ ''theme: '' @ t @ ''\<newline>'' else h);
          h = h @ ''title: '' @ [CHR 0x22] @ presentation_title input @ [CHR 0x22] @ ''\<newline>'';
          h = (case author input of
                 None \<Rightarrow> h
               | Some a \<Rightarrow> if a \<noteq> [] then h @ ''author: '' @ [CHR 0x22] @ a @ [CHR 0x22] @ ''\<newline>''
                           else h);
          h = h @ ''---\<newline>''
      in h)"

text \<open>The body of the callback of \<open>input.slides.forEach\<close>: what one slide appends to
  \<open>markdown\<close>.\<close>

definition slideCallback :: "build_input \<Rightarrow> slide \<Rightarrow> nat \<Rightarrow> string \<Rightarrow> string" where
  "slideCallback input sl index markdown =
     (let markdown =
            (if index = 0 then markdown @ firstSlideHeader input sl
             else markdown @ ''\<newline>---\<newline>layout: '' @ layoutOr (layout sl) ''default''
                    @ ''\<newline>---\<newline>'');
          markdown =
            (case title sl of
               None \<Rightarrow> markdown
             | Some t \<Rightarrow> if t \<noteq> [] then markdown @ ''\<newline># '' @ t @ ''\<newline>'' else markdown);
          markdown =
            (case content sl of
               None \<Rightarrow> markdown
             | Some c \<Rightarrow> if c \<noteq> [] then markdown @ ''\<newline>'' @ c @ ''\<newline>'' else markdown);
          markdown =
            (case (code sl, codeLanguage sl) of
               (Some c, Some l) \<Rightarrow>
                 if c \<noteq> [] \<and> l \<noteq> []
                 then markdown @ ''\<newline>```'' @ l @ ''\<newline>'' @ c @ ''\<newline>```\<newline>''
                 else markdown
             | _ \<Rightarrow> markdown)
      in markdown)"

text \<open>\<open>Array.prototype.forEach\<close> over the slides from position \<open>index\<close> on, threading
  \<open>markdown\<close>.\<close>

fun forEachSlide :: "build_input \<Rightarrow> nat \<Rightarrow> slide list \<Rightarrow> string \<Rightarrow> string" where
  "forEachSlide input index [] markdown = markdown"
| "forEachSlide input index (sl # rest) markdown =
     forEachSlide input (Suc index) rest (slideCallback input sl index markdown)"

text \<open>The markdown document of a request, and the value of \<open>markdown\<close> once the first
  \<open>k\<close> slides have been visited.\<close>

definition buildMarkdown :: "build_input \<Rightarrow> string" where
  "buildMarkdown input = forEachSlide input 0 (slides input) []"

definition markdownAfter :: "build_input \<Rightarrow> nat \<Rightarrow> string" where
  "markdownAfter input k = forEachSlide input 0 (take k (slides input)) []"

section \<open>The runtime: file system, processes, paths\<close>

text \<open>
  Errors are values: \<open>Error m\<close> is a thrown JavaScript \<open>Error\<close> whose \<open>message\<close> is \<open>m\<close>.
  The file system holds regular files with their contents and directories; \<open>denied\<close>
  names the paths at which creating or writing fails (a missing parent directory, missing
  permissions, a full disk), with the message of the error raised there.
\<close>

datatype error = Error (errorMessage: string)

record filesystem =
  files :: "string \<rightharpoonup> string"
  dirs :: "string set"
  denied :: "string \<rightharpoonup> string"

text \<open>Every effect on the outside world is recorded, in order, in the trace of the state.\<close>

datatype event =
    Exec string string
  | Mkdir string
  | WriteFile string
  | CopyFile string string
  | Chdir string

text \<open>The state of the server process: the file system, the working directory, the
  module variable \<open>presentationName\<close> of the tool server, and the trace.\<close>

record state =
  fs :: filesystem
  cwd :: string
  presentationName :: string
  trace :: "event list"

text \<open>
  What the code takes from Node and from the machine it runs on is a parameter: the outcome
  of a child process (\<open>execSync command cwd\<close>: it fails with an error or returns its
  output, and may change the file system either way), the functions of \<open>path\<close>
  (\<open>resolve\<close> receives the working directory first), the SHA-1 digest in hexadecimal, the
  first capture group of the frontmatter regular expression, the environment, the platform
  name, the home directory and the directory of the wrapper script.
\<close>

record runtime =
  execSync :: "string \<Rightarrow> string \<Rightarrow> filesystem \<Rightarrow> (error + string) \<times> filesystem"
  join :: "string list \<Rightarrow> string"
  resolve :: "string \<Rightarrow> string list \<Rightarrow> string"
  dirname :: "string \<Rightarrow> string"
  basename :: "string \<Rightarrow> string"
  sha1hex :: "string \<Rightarrow> string"
  themeMatch :: "string \<Rightarrow> string option"
  env :: "string \<Rightarrow> string option"
  platform :: string
  homedir :: string
  wrapperDirname :: string

text \<open>An action of the process either throws or returns, and leaves a state behind.\<close>

type_synonym 'a io = "state \<Rightarrow> (error + 'a) \<times> state"

definition ret :: "'a \<Rightarrow> 'a io" where
  "ret x st = (Inr x, st)"

definition throw :: "error \<Rightarrow> 'a io" where
  "throw e st = (Inl e, st)"

definition bnd :: "'a io \<Rightarrow> ('a \<Rightarrow> 'b io) \<Rightarrow> 'b io" where
  "bnd m f st = (case m st of (Inl e, st') \<Rightarrow> (Inl e, st') | (Inr x, st') \<Rightarrow> f x st')"

definition tryCatch :: "'a io \<Rightarrow> (error \<Rightarrow> 'a io) \<Rightarrow> 'a io" where
  "tryCatch m h st = (case m st of (Inl e, st') \<Rightarrow> h e st' | (Inr x, st') \<Rightarrow> (Inr x, st'))"

definition record_event :: "event \<Rightarrow> state \<Rightarrow> state" where
  "record_event ev st = st\<lparr>trace := trace st @ [ev]\<rparr>"

definition existsSync :: "filesystem \<Rightarrow> string \<Rightarrow> bool" where
  "existsSync f p = (p \<in> dirs f \<or> p \<in> dom (files f))"

definition exists_io :: "string \<Rightarrow> bool io" where
  "exists_io p st = (Inr (existsSync (fs st) p), st)"

text \<open>\<open>mkdirSync(p, { recursive: true })\<close>; the ancestors it may create are not tracked.\<close>

definition mkdirSync :: "string \<Rightarrow> unit io" where
  "mkdirSync p st =
     (let st = record_event (Mkdir p) st
      in case denied (fs st) p of
           Some m \<Rightarrow> (Inl (Error m), st)
         | None \<Rightarrow>
             if files (fs st) p \<noteq> None
             then (Inl (Error (''EEXIST: file already exists, mkdir '' @ p)), st)
             else (Inr (), st\<lparr>fs := (fs st)\<lparr>dirs := insert p (dirs (fs st))\<rparr>\<rparr>))"

definition write_file :: "filesystem \<Rightarrow> string \<Rightarrow> string \<Rightarrow> error + filesystem" where
  "write_file f p text =
     (case denied f p of
        Some m \<Rightarrow> Inl (Error m)
      | None \<Rightarrow>
          if p \<in> dirs f
          then Inl (Error (''EISDIR: illegal operation on a directory, open '' @ p))
          else Inr (f\<lparr>files := (files f)(p \<mapsto> text)\<rparr>))"

definition writeFileSync :: "string \<Rightarrow> string \<Rightarrow> unit io" where
  "writeFileSync p text st =
     (let st = record_event (WriteFile p) st
      in case write_file (fs st) p text of
           Inl e \<Rightarrow> (Inl e, st)
         | Inr f \<Rightarrow> (Inr (), st\<lparr>fs := f\<rparr>))"

definition readFileSync :: "string \<Rightarrow> string io" where
  "readFileSync p st =
     (case files (fs st) p of
        None \<Rightarrow>
          if p \<in> dirs (fs st)
          then (Inl (Error ''EISDIR: illegal operation on a directory, read''), st)
          else (Inl (Error (''ENOENT: no such file or directory, open '' @ p)), st)
      | Some text \<Rightarrow> (Inr text, st))"

definition copyFileSync :: "string \<Rightarrow> string \<Rightarrow> unit io" where
  "copyFileSync src dst st =
     (let st = record_event (CopyFile src dst) st
      in case files (fs st) src of
           None \<Rightarrow>
             (Inl (Error (''ENOENT: no such file or directory, copyfile '' @ src @ '' -> '' @ dst)), st)
         | Some text \<Rightarrow>
             (case write_file (fs st) dst text of
                Inl e \<Rightarrow> (Inl e, st)
              | Inr f \<Rightarrow> (Inr (), st\<lparr>fs := f\<rparr>)))"

text \<open>\<open>fs.promises.stat\<close>, of which only success matters to the code.\<close>

definition stat :: "string \<Rightarrow> unit io" where
  "stat p st =
     (if existsSync (fs st) p then (Inr (), st)
      else (Inl (Error (''ENOENT: no such file or directory, stat '' @ p)), st))"

definition chdir :: "string \<Rightarrow> unit io" where
  "chdir d st =
     (let st = record_event (Chdir d) st
      in if d \<in> dirs (fs st) then (Inr (), st\<lparr>cwd := d\<rparr>)
         else (Inl (Error (''ENOENT: no such file or directory, chdir '' @ cwd st @ '' -> '' @ d)), st))"

definition exec :: "runtime \<Rightarrow> string \<Rightarrow> string \<Rightarrow> string io" where
  "exec N command dir st =
     (let st = record_event (Exec command dir) st
      in case execSync N command dir (fs st) of
           (r, f) \<Rightarrow> (r, st\<lparr>fs := f\<rparr>))"

text \<open>\<open>if (!existsSync(d)) mkdirSync(d, { recursive: true })\<close>\<close>

definition ensureDir :: "string \<Rightarrow> unit io" where
  "ensureDir d = bnd (exists_io d) (\<lambda>there. if there then ret () else mkdirSync d)"

text \<open>\<open>process.env.X && process.env.X.length > 0 ? process.env.X : dflt\<close>\<close>

definition envOr :: "runtime \<Rightarrow> string \<Rightarrow> string \<Rightarrow> string" where
  "envOr N var dflt = (case env N var of None \<Rightarrow> dflt | Some v \<Rightarrow> if v \<noteq> [] then v else dflt)"

text \<open>The decimal digits of a number, as a template literal prints it.\<close>

fun showNat :: "nat \<Rightarrow> string" where
  "showNat n =
     (if n < 10 then [char_of (48 + n)] else showNat (n div 10) @ [char_of (48 + n mod 10)])"

section \<open>The tool \<open>build_complete_presentation\<close>\<close>

record build_payload =
  message :: string
  slideCount :: nat
  filePath :: string
  success :: bool

definition getUserDataDir :: "runtime \<Rightarrow> string" where
  "getUserDataDir N =
     (if platform N = ''win32''
      then (case env N ''LOCALAPPDATA'' of
              Some v \<Rightarrow> if v \<noteq> [] then v
                        else envOr N ''APPDATA'' (join N [homedir N, ''AppData'', ''Local''])
            | None \<Rightarrow> envOr N ''APPDATA'' (join N [homedir N, ''AppData'', ''Local'']))
      else if platform N = ''darwin''
      then join N [homedir N, ''Library'', ''Application Support'']
      else join N [homedir N, ''.local'', ''share''])"

definition getDefaultSlidevDir :: "runtime \<Rightarrow> string" where
  "getDefaultSlidevDir N = join N [getUserDataDir N, ''precursor'', ''slides'']"

definition presentationsDir :: "runtime \<Rightarrow> string" where
  "presentationsDir N = envOr N ''SLIDEV_DIR'' (getDefaultSlidevDir N)"

definition noSlidesPayload :: build_payload where
  "noSlidesPayload =
     \<lparr>message = ''No slides provided. '' @ [CHR 0x27] @ ''slides'' @ [CHR 0x27]
                 @ '' array must contain at least one slide.'',
      slideCount = 0, filePath = [], success = False\<rparr>"

text \<open>The handler. It sets \<open>presentationName\<close> first, returns the failure payload for an empty
  array, and otherwise builds the markdown, creates the directory when it is missing and
  writes the file; nothing in it catches what \<open>mkdirSync\<close> or \<open>writeFileSync\<close> throw.\<close>

definition build_complete_presentation :: "runtime \<Rightarrow> build_input \<Rightarrow> build_payload io" where
  "build_complete_presentation N input st0 =
     (let st = st0\<lparr>presentationName := name input\<rparr>
      in if slides input = [] then (Inr noSlidesPayload, st)
         else
           (let markdown = buildMarkdown input;
                dir = presentationsDir N;
                path = join N [dir, presentationName st @ ''.md'']
            in bnd (ensureDir dir) (\<lambda>_.
               bnd (writeFileSync path markdown) (\<lambda>_.
               ret \<lparr>message = ''Complete presentation '' @ [CHR 0x27] @ presentation_title input
                       @ [CHR 0x27] @ '' with '' @ showNat (length (slides input))
                       @ '' slides created and saved successfully!'',
                    slideCount = length (slides input), filePath = path, success = True\<rparr>)) st))"

section \<open>The export wrapper \<open>exportToPDF\<close>\<close>

record export_options =
  opt_withClicks :: bool
  opt_range :: "string option"
  opt_dark :: bool

record export_result =
  res_success :: bool
  res_pdfPath :: string
  res_message :: string

text \<open>\<open>s.replace(/^presentations\//, '')\<close> and \<open>s.replace(/\.md$/i, '')\<close>\<close>

definition stripPresentations :: "string \<Rightarrow> string" where
  "stripPresentations s =
     (if prefix ''presentations/'' s then drop (length ''presentations/'') s else s)"

definition stripMd :: "string \<Rightarrow> string" where
  "stripMd s =
     (let n = length s
      in if 3 \<le> n \<and> toLowerCase (drop (n - 3) s) = ''.md'' then take (n - 3) s else s)"

text \<open>\<open>s.replace(pat, rep)\<close> for a string pattern: the first occurrence only. The \<open>$\<close>
  patterns of the replacement string are not modelled.\<close>

fun replaceFirst :: "string \<Rightarrow> string \<Rightarrow> string \<Rightarrow> string" where
  "replaceFirst pat rep [] = (if pat = [] then rep else [])"
| "replaceFirst pat rep (c # cs) =
     (if prefix pat (c # cs) then rep @ drop (length pat) (c # cs)
      else c # replaceFirst pat rep cs)"

fun joinWith :: "string \<Rightarrow> string list \<Rightarrow> string" where
  "joinWith sep [] = []"
| "joinWith sep [x] = x"
| "joinWith sep (x # y # ys) = x @ sep @ joinWith sep (y # ys)"

subsection \<open>Locating\<close>

definition possiblePaths :: "runtime \<Rightarrow> string \<Rightarrow> string \<Rightarrow> string list" where
  "possiblePaths N originalCwd inputFile =
     (let wrapperRoot = resolve N originalCwd [wrapperDirname N]
      in [resolve N originalCwd [originalCwd, inputFile],
          resolve N originalCwd [wrapperRoot, inputFile],
          resolve N originalCwd [inputFile],
          resolve N originalCwd [originalCwd, ''presentations'', stripPresentations inputFile],
          resolve N originalCwd [wrapperRoot, ''presentations'', stripPresentations inputFile]])"

text \<open>The loop that keeps the first candidate that exists.\<close>

definition firstExisting :: "string list \<Rightarrow> string option io" where
  "firstExisting paths st = (Inr (find (existsSync (fs st)) paths), st)"

subsection \<open>Preparing\<close>

definition getDefaultCanonicalDir :: "runtime \<Rightarrow> string" where
  "getDefaultCanonicalDir N =
     (if platform N = ''darwin''
      then join N [homedir N, ''Library'', ''Application Support'', ''precursor'', ''slidev_project'']
      else if platform N = ''win32''
      then join N [(case env N ''LOCALAPPDATA'' of
                      Some v \<Rightarrow> if v \<noteq> [] then v
                                else envOr N ''APPDATA'' (join N [homedir N, ''AppData'', ''Local''])
                    | None \<Rightarrow> envOr N ''APPDATA'' (join N [homedir N, ''AppData'', ''Local''])),
                   ''precursor'', ''slidev_project'']
      else join N [homedir N, ''.local'', ''share'', ''precursor'', ''slidev_project''])"

definition canonicalRootOf :: "runtime \<Rightarrow> string \<Rightarrow> string" where
  "canonicalRootOf N originalCwd =
     (case env N ''SLIDEV_DIR'' of
        None \<Rightarrow> getDefaultCanonicalDir N
      | Some d \<Rightarrow> if d \<noteq> [] then resolve N originalCwd [d] else getDefaultCanonicalDir N)"

definition run :: "runtime \<Rightarrow> string \<Rightarrow> string \<Rightarrow> unit io" where
  "run N command dir = bnd (exec N command dir) (\<lambda>_. ret ())"

definition requireResolve :: "string \<Rightarrow> string" where
  "requireResolve pkg =
     ''node -e '' @ [CHR 0x22] @ ''require.resolve('' @ [CHR 0x27] @ pkg @ [CHR 0x27] @ '')''
       @ [CHR 0x22]"

definition npmInstall :: "string \<Rightarrow> string" where
  "npmInstall pkg = ''npm install -D '' @ pkg @ '' --no-audit --no-fund --prefer-offline --silent''"

definition playwrightInstall :: string where
  "playwrightInstall = ''npx playwright install chromium --with-deps''"

text \<open>The project setup: \<open>package.json\<close>, the CLI and the default theme. A failed check is
  answered by an installation; a failed installation ends the setup, and nothing more.\<close>

definition projectSetup :: "runtime \<Rightarrow> string \<Rightarrow> unit io" where
  "projectSetup N canonicalRoot =
     tryCatch
       (bnd (exists_io (join N [canonicalRoot, ''package.json''])) (\<lambda>there.
        bnd (if there then ret () else run N ''npm init -y'' canonicalRoot) (\<lambda>_.
        bnd (tryCatch (run N (requireResolve ''@slidev/cli'') canonicalRoot)
               (\<lambda>_. run N (npmInstall ''@slidev/cli'') canonicalRoot)) (\<lambda>_.
        tryCatch (run N (requireResolve ''@slidev/theme-default'') canonicalRoot)
          (\<lambda>_. run N (npmInstall ''@slidev/theme-default'') canonicalRoot)))))
       (\<lambda>setupErr. ret ())"

subsection \<open>Staging\<close>

definition stagedMdName :: "runtime \<Rightarrow> string \<Rightarrow> string" where
  "stagedMdName N mdPath =
     (let mdBaseName = basename N mdPath;
          mdHash = take 8 (sha1hex N mdPath)
      in stripMd mdBaseName @ ''-'' @ mdHash @ ''.md'')"

text \<open>The entry markdown is copied into the \<open>slides\<close> folder of the project, under its
  staged name.\<close>

definition staging :: "runtime \<Rightarrow> string \<Rightarrow> string \<Rightarrow> unit io" where
  "staging N canonicalRoot mdPath =
     (let slidesDir = join N [canonicalRoot, ''slides''];
          stagedMdRelPath = join N [''slides'', stagedMdName N mdPath];
          stagedMdAbsPath = join N [canonicalRoot, stagedMdRelPath]
      in bnd (ensureDir slidesDir) (\<lambda>_. copyFileSync mdPath stagedMdAbsPath))"

definition derivePkgName :: "string \<Rightarrow> string" where
  "derivePkgName themeName =
     (if includesStr themeName ''/'' \<or> startsWith themeName ''@'' then themeName
      else if startsWith themeName ''theme-'' then ''@slidev/'' @ themeName
      else ''@slidev/theme-'' @ themeName)"

text \<open>The package of the theme named in the frontmatter, if one is to be ensured.\<close>

definition themePackage :: "runtime \<Rightarrow> string \<Rightarrow> string option" where
  "themePackage N mdText =
     (case themeMatch N mdText of
        None \<Rightarrow> None
      | Some captured \<Rightarrow>
          (let frontmatterTheme = trim captured
           in if frontmatterTheme \<noteq> [] \<and> toLowerCase frontmatterTheme \<noteq> ''none''
              then Some (derivePkgName frontmatterTheme) else None))"

definition ensureTheme :: "runtime \<Rightarrow> string \<Rightarrow> string \<Rightarrow> unit io" where
  "ensureTheme N mdPath canonicalRoot =
     tryCatch
       (bnd (readFileSync mdPath) (\<lambda>mdText.
        case themePackage N mdText of
          None \<Rightarrow> ret ()
        | Some pkgName \<Rightarrow>
            tryCatch (run N (requireResolve pkgName) canonicalRoot)
              (\<lambda>_. tryCatch (run N (npmInstall pkgName) canonicalRoot) (\<lambda>instErr. ret ()))))
       (\<lambda>_. ret ())"

subsection \<open>Exporting\<close>

definition ensurePlaywright :: "runtime \<Rightarrow> string \<Rightarrow> unit io" where
  "ensurePlaywright N canonicalRoot =
     bnd (tryCatch (run N (requireResolve ''playwright-chromium'') canonicalRoot)
            (\<lambda>_. tryCatch (run N (npmInstall ''playwright-chromium'') canonicalRoot) (\<lambda>e. ret ())))
       (\<lambda>_. tryCatch (run N playwrightInstall canonicalRoot) (\<lambda>e. ret ()))"

definition exportCommands :: "string \<Rightarrow> string \<Rightarrow> string \<Rightarrow> string list" where
  "exportCommands canonicalRoot stagedMdRelPath desiredOutputFilename =
     [''cd '' @ [CHR 0x22] @ canonicalRoot @ [CHR 0x22] @ '' && npx slidev export '' @ [CHR 0x22]
        @ stagedMdRelPath @ [CHR 0x22] @ '' --output '' @ [CHR 0x22] @ desiredOutputFilename
        @ [CHR 0x22],
      ''cd '' @ [CHR 0x22] @ canonicalRoot @ [CHR 0x22]
        @ '' && node node_modules/@slidev/cli/bin/slidev.mjs export '' @ [CHR 0x22]
        @ stagedMdRelPath @ [CHR 0x22] @ '' --output '' @ [CHR 0x22] @ desiredOutputFilename
        @ [CHR 0x22]]"

definition optionFlags :: "export_options \<Rightarrow> string list" where
  "optionFlags options =
     (if opt_withClicks options then [''--with-clicks''] else [])
     @ (case opt_range options of
          None \<Rightarrow> []
        | Some r \<Rightarrow> if r \<noteq> [] then [''--range '' @ [CHR 0x22] @ r @ [CHR 0x22]] else [])
     @ (if opt_dark options then [''--dark''] else [])"

definition withFlags :: "export_options \<Rightarrow> string list \<Rightarrow> string list" where
  "withFlags options commands =
     (let flagString = joinWith '' '' (optionFlags options)
      in if flagString \<noteq> []
         then map (replaceFirst ('' export '' @ [CHR 0x22])
                     ('' export '' @ flagString @ '' '' @ [CHR 0x22])) commands
         else commands)"

definition healPlaywright :: "runtime \<Rightarrow> string \<Rightarrow> unit io" where
  "healPlaywright N canonicalRoot =
     tryCatch
       (bnd (run N (npmInstall ''playwright-chromium'') canonicalRoot)
          (\<lambda>_. run N playwrightInstall canonicalRoot))
       (\<lambda>installErr. ret ())"

text \<open>The loop over the export commands from position \<open>i\<close> on: it stops at the first command
  that succeeds and returns whether one did, with the last error seen.\<close>

fun tryCommands ::
  "runtime \<Rightarrow> string \<Rightarrow> nat \<Rightarrow> string list \<Rightarrow> error option \<Rightarrow> (bool \<times> error option) io" where
  "tryCommands N canonicalRoot i [] lastError st = (Inr (False, lastError), st)"
| "tryCommands N canonicalRoot i (command # rest) lastError st =
     (case exec N command canonicalRoot st of
        (Inr out, st1) \<Rightarrow> (Inr (True, lastError), st1)
      | (Inl cmdError, st1) \<Rightarrow>
          (let st2 = (if includesStr (errorMessage cmdError) ''playwright'' \<and> i = 0
                      then snd (healPlaywright N canonicalRoot st1) else st1)
           in tryCommands N canonicalRoot (Suc i) rest (Some cmdError) st2))"

subsection \<open>Verifying\<close>

definition possibleOutputPaths ::
  "runtime \<Rightarrow> string \<Rightarrow> string \<Rightarrow> string \<Rightarrow> string \<Rightarrow> string \<Rightarrow> string \<Rightarrow> string \<Rightarrow> string list" where
  "possibleOutputPaths N currentCwd canonicalRoot mdPath outputFile outPath desiredOutputFilename
     stagedMdAbsPath =
     (let mdBase = stripMd (basename N mdPath)
      in [outPath,
          resolve N currentCwd [canonicalRoot, outputFile],
          join N [canonicalRoot, outputFile],
          join N [currentCwd, outputFile],
          join N [canonicalRoot, desiredOutputFilename],
          join N [dirname N stagedMdAbsPath, desiredOutputFilename],
          join N [canonicalRoot, ''slides-export.pdf''],
          join N [dirname N stagedMdAbsPath, ''slides-export.pdf''],
          join N [canonicalRoot, mdBase @ ''.pdf''],
          join N [canonicalRoot, mdBase @ ''-export.pdf''],
          join N [dirname N stagedMdAbsPath, mdBase @ ''.pdf''],
          join N [dirname N stagedMdAbsPath, mdBase @ ''-export.pdf'']])"

text \<open>The verification of the output, from the search of the candidates to the result
  that is returned: the first candidate that exists is the artifact; when it is not the
  requested path it is copied there, and a copy that fails leaves the artifact where it was
  found; with no artifact the step throws.\<close>

definition verifying :: "string \<Rightarrow> string list \<Rightarrow> export_result io" where
  "verifying outPath candidates =
     bnd (firstExisting candidates) (\<lambda>found.
     bnd (case found of
            None \<Rightarrow> ret None
          | Some actual \<Rightarrow>
              if actual \<noteq> [] \<and> actual \<noteq> outPath
              then tryCatch (bnd (copyFileSync actual outPath) (\<lambda>_. ret (Some outPath)))
                     (\<lambda>copyErr. ret (Some actual))
              else ret (Some actual)) (\<lambda>actualPdfPath.
     case actualPdfPath of
       None \<Rightarrow> throw (Error ''PDF file was not created in any expected location'')
     | Some pdf \<Rightarrow>
         if pdf = [] then throw (Error ''PDF file was not created in any expected location'')
         else bnd (stat pdf) (\<lambda>_.
              ret \<lparr>res_success = True, res_pdfPath = pdf,
                   res_message = ''PDF exported successfully: '' @ pdf\<rparr>)))"

subsection \<open>The wrapper\<close>

text \<open>The \<open>catch\<close> that closes \<open>exportToPDF\<close>: every error thrown inside becomes a result.\<close>

definition exportCatch :: "export_result io \<Rightarrow> export_result io" where
  "exportCatch body =
     tryCatch body
       (\<lambda>error. ret \<lparr>res_success = False, res_pdfPath = [],
                      res_message = ''PDF export failed: '' @ errorMessage error\<rparr>)"

definition exportPipeline ::
  "runtime \<Rightarrow> string \<Rightarrow> string \<Rightarrow> string \<Rightarrow> export_options \<Rightarrow> export_result io" where
  "exportPipeline N originalCwd mdPath outputFile options =
     (let canonicalRoot = canonicalRootOf N originalCwd;
          stagedMdRelPath = join N [''slides'', stagedMdName N mdPath];
          stagedMdAbsPath = join N [canonicalRoot, stagedMdRelPath]
      in bnd (ensureDir canonicalRoot) (\<lambda>_.
         bnd (projectSetup N canonicalRoot) (\<lambda>_.
         bnd (staging N canonicalRoot mdPath) (\<lambda>_.
         bnd (chdir canonicalRoot) (\<lambda>_.
         (let outPath = resolve N canonicalRoot [canonicalRoot, outputFile];
              desiredOutputFilename = basename N outPath
          in bnd (ensureDir (dirname N outPath)) (\<lambda>_.
             bnd (ensurePlaywright N canonicalRoot) (\<lambda>_.
             bnd (ensureTheme N mdPath canonicalRoot) (\<lambda>_.
             bnd (tryCommands N canonicalRoot 0
                    (withFlags options
                       (exportCommands canonicalRoot stagedMdRelPath desiredOutputFilename))
                    None) (\<lambda>(exportSuccessful, lastError).
             if \<not> exportSuccessful
             then throw (case lastError of
                           Some e \<Rightarrow> e
                         | None \<Rightarrow> Error ''All export methods failed'')
             else verifying outPath
                    (possibleOutputPaths N canonicalRoot canonicalRoot mdPath outputFile outPath
                       desiredOutputFilename stagedMdAbsPath)))))))))))"

definition exportToPDF :: "runtime \<Rightarrow> string \<Rightarrow> string \<Rightarrow> export_options \<Rightarrow> export_result io" where
  "exportToPDF N inputFile outputFile options =
     exportCatch
       (\<lambda>st. (let originalCwd = cwd st
              in bnd (firstExisting (possiblePaths N originalCwd inputFile)) (\<lambda>mdPath.
                 case mdPath of
                   None \<Rightarrow> throw (Error (''Input file not found: '' @ inputFile))
                 | Some p \<Rightarrow>
                     if p = [] then throw (Error (''Input file not found: '' @ inputFile))
                     else exportPipeline N originalCwd p outputFile options)) st)"

section \<open>The tool \<open>export_to_pdf\<close>\<close>

record export_input =
  inputPath :: "string option"
  exportName :: "string option"
  outputPath :: "string option"
  withClicks :: "bool option"
  pageRange :: "string option"
  dark :: "bool option"

record export_payload =
  export_message :: string
  pdfPath :: string
  export_slideCount :: nat
  export_success :: bool

text \<open>\<open>x && String(x).trim().length > 0\<close> on an optional string.\<close>

definition nonBlank :: "string option \<Rightarrow> bool" where
  "nonBlank x = (case x of None \<Rightarrow> False | Some s \<Rightarrow> s \<noteq> [] \<and> length (trim s) > 0)"

text \<open>The resolution of the markdown input: the given path, or the file of the given name,
  or of the last built presentation, in the presentations directory.\<close>

definition noNameMessage :: string where
  "noNameMessage =
     ''No inputPath provided and no presentation name available. Provide '' @ [CHR 0x27]
       @ ''inputPath'' @ [CHR 0x27] @ '' or '' @ [CHR 0x27] @ ''name'' @ [CHR 0x27]
       @ '' (after building a presentation).''"

text \<open>\<open>input.name || presentationName\<close>\<close>

definition nameToExport :: "export_input \<Rightarrow> state \<Rightarrow> string" where
  "nameToExport input st =
     (case exportName input of
        None \<Rightarrow> presentationName st
      | Some n \<Rightarrow> if n \<noteq> [] then n else presentationName st)"

definition resolveByName :: "runtime \<Rightarrow> export_input \<Rightarrow> string io" where
  "resolveByName N input st =
     (let name = nameToExport input st
      in if name = [] then throw (Error noNameMessage) st
         else (let candidate = join N [presentationsDir N, name @ ''.md'']
               in bnd (exists_io candidate) (\<lambda>there.
                  if \<not> there then throw (Error (''Presentation file not found: '' @ candidate))
                  else ret candidate) st))"

definition resolveInput :: "runtime \<Rightarrow> export_input \<Rightarrow> string io" where
  "resolveInput N input =
     (case inputPath input of
        None \<Rightarrow> resolveByName N input
      | Some p \<Rightarrow>
          if p \<noteq> [] \<and> length (trim p) > 0
          then bnd (exists_io p) (\<lambda>there.
                 if \<not> there then throw (Error (''Input markdown not found: '' @ p))
                 else ret p)
          else resolveByName N input)"

definition resolveOutput :: "runtime \<Rightarrow> export_input \<Rightarrow> string \<Rightarrow> string io" where
  "resolveOutput N input mdPath =
     (let dflt = join N [dirname N mdPath, stripMd (basename N mdPath) @ ''.pdf'']
      in case outputPath input of
           None \<Rightarrow> ret dflt
         | Some out \<Rightarrow>
             if out = [] \<or> length (trim out) = 0 then ret dflt
             else bnd (ensureDir (dirname N out)) (\<lambda>_. ret out))"

definition exportOptionsOf :: "export_input \<Rightarrow> export_options" where
  "exportOptionsOf input =
     \<lparr>opt_withClicks = (withClicks input = Some True),
      opt_range = (if nonBlank (pageRange input) then pageRange input else None),
      opt_dark = (dark input = Some True)\<rparr>"

text \<open>\<open>(markdown.match(/---\nlayout:/g) || []).length || 1\<close>; two matches of this pattern
  cannot overlap, so the matches are the occurrences.\<close>

definition countSlides :: "string \<Rightarrow> nat" where
  "countSlides markdown =
     (let n = occurrences ''---\<newline>layout:'' markdown in if n = 0 then 1 else n)"

definition failurePayload :: "string \<Rightarrow> export_payload" where
  "failurePayload m = \<lparr>export_message = m, pdfPath = [], export_slideCount = 0, export_success = False\<rparr>"

text \<open>The \<open>catch\<close> of the handler: the message of the error picks one of three payloads.\<close>

definition classifyFailure :: "error \<Rightarrow> export_payload" where
  "classifyFailure e =
     (let m = (if errorMessage e \<noteq> [] then errorMessage e else ''Error'')
      in if includesStr (toLowerCase m) ''playwright''
         then failurePayload
                ''PDF export failed: Playwright dependency issue. Run: npm install -D playwright-chromium''
         else if includesStr m ''ENOENT'' \<or> includesStr m ''command not found''
         then failurePayload
                ''PDF export failed: Slidev CLI not found. Run: npm install -g @slidev/cli (or add it to your project devDependencies).''
         else failurePayload (''PDF export failed: '' @ m))"

definition export_to_pdf :: "runtime \<Rightarrow> export_input \<Rightarrow> export_payload io" where
  "export_to_pdf N input =
     tryCatch
       (bnd (resolveInput N input) (\<lambda>mdPath.
        bnd (resolveOutput N input mdPath) (\<lambda>out.
        bnd (exportToPDF N mdPath out (exportOptionsOf input)) (\<lambda>result.
        if \<not> res_success result then throw (Error (res_message result))
        else (let pdf = (if res_pdfPath result \<noteq> [] then res_pdfPath result else out)
              in bnd (readFileSync mdPath) (\<lambda>markdown.
                 ret \<lparr>export_message = ''PDF exported successfully! File saved at: '' @ pdf,
                      pdfPath = pdf, export_slideCount = countSlides markdown,
                      export_success = True\<rparr>))))))
       (\<lambda>error. ret (classifyFailure error))"

section \<open>The notions of the specification\<close>

subsection \<open>The deck builder as the specification words it\<close>

text \<open>The layout a block declares: the slide's explicit layout when it holds a character
  that is not white space, the default of its position otherwise.\<close>

definition effectiveLayout :: "string option \<Rightarrow> string \<Rightarrow> string" where
  "effectiveLayout l dflt =
     (case l of None \<Rightarrow> dflt | Some s \<Rightarrow> if list_all isWhiteSpace s then dflt else s)"

text \<open>The text that opens the block at position \<open>i\<close> and declares layout \<open>l\<close>.\<close>

definition layoutDeclaration :: "nat \<Rightarrow> string \<Rightarrow> string" where
  "layoutDeclaration i l =
     (if i = 0 then ''---\<newline>layout: '' @ l @ ''\<newline>''
      else ''\<newline>---\<newline>layout: '' @ l @ ''\<newline>---\<newline>'')"

text \<open>The whole header of the block at position \<open>i\<close>.\<close>

definition blockHeader :: "build_input \<Rightarrow> nat \<Rightarrow> slide \<Rightarrow> string" where
  "blockHeader input i sl =
     (if i = 0 then firstSlideHeader input sl
      else layoutDeclaration i (effectiveLayout (layout sl) ''default''))"

text \<open>The heading line, the raw content and the fenced code block of a slide.\<close>

definition headingLine :: "slide \<Rightarrow> string" where
  "headingLine sl =
     (case title sl of None \<Rightarrow> [] | Some t \<Rightarrow> if t = [] then [] else ''\<newline># '' @ t @ ''\<newline>'')"

definition rawContent :: "slide \<Rightarrow> string" where
  "rawContent sl =
     (case content sl of None \<Rightarrow> [] | Some c \<Rightarrow> if c = [] then [] else ''\<newline>'' @ c @ ''\<newline>'')"

definition codeFence :: "string \<Rightarrow> string \<Rightarrow> string" where
  "codeFence l c = ''\<newline>```'' @ l @ ''\<newline>'' @ c @ ''\<newline>```\<newline>''"

definition fencedCode :: "slide \<Rightarrow> string" where
  "fencedCode sl =
     (case (code sl, codeLanguage sl) of
        (Some c, Some l) \<Rightarrow> if c \<noteq> [] \<and> l \<noteq> [] then codeFence l c else []
      | _ \<Rightarrow> [])"

definition slideBody :: "slide \<Rightarrow> string" where
  "slideBody sl = headingLine sl @ rawContent sl @ fencedCode sl"

text \<open>The pattern that marks a slide's layout declaration, and the strings of a request
  that hold no frontmatter delimiter.\<close>

definition slidePattern :: string where
  "slidePattern = ''---\<newline>layout:''"





text \<open>A text is empty or begins with a line feed.\<close>

definition nlStart :: "string \<Rightarrow> bool" where
  "nlStart s = (s = [] \<or> hd s = CHR 0x0A)"

subsection \<open>The results of the verifying step\<close>


definition exported :: "string \<Rightarrow> export_result" where
  "exported pdf =
     \<lparr>res_success = True, res_pdfPath = pdf, res_message = ''PDF exported successfully: '' @ pdf\<rparr>"

section \<open>Concrete requests and machines\<close>

text \<open>The sample call of the guidance tool.\<close>

definition sampleDeck :: build_input where
  "sampleDeck =
     \<lparr>name = ''mcp_minimal_test'', presentation_title = ''MCP Minimal Test'',
      slides =
        [\<lparr>layout = Some ''cover'', title = Some ''MCP + Slidev'',
          content = Some ''This is the cover slide.'', code = None, codeLanguage = None\<rparr>,
         \<lparr>layout = None, title = Some ''Second Slide'',
          content = Some ''- Bullet A\<newline>- Bullet B\<newline>- Bullet C'', code = None,
          codeLanguage = None\<rparr>,
         \<lparr>layout = Some ''two-cols'', title = Some ''Code + Notes'',
          content = Some ''Left: explanation\<newline>Right: code example'',
          code = Some ''console.log(1);'', codeLanguage = Some ''js''\<rparr>],
      theme = Some ''seriph'', author = Some ''MCP Tester''\<rparr>"

text \<open>A deck whose only slide has a layout of one space; one whose slide content holds a
  frontmatter delimiter; one whose slide has a language and an empty code.\<close>

definition blankLayoutDeck :: build_input where
  "blankLayoutDeck =
     \<lparr>name = ''d'', presentation_title = ''T'',
      slides = [\<lparr>layout = Some '' '', title = None, content = None, code = None,
                 codeLanguage = None\<rparr>],
      theme = None, author = None\<rparr>"


definition emptyCodeDeck :: build_input where
  "emptyCodeDeck =
     \<lparr>name = ''d'', presentation_title = ''T'',
      slides = [\<lparr>layout = None, title = None, content = None, code = Some [],
                 codeLanguage = Some ''js''\<rparr>],
      theme = None, author = None\<rparr>"

text \<open>A machine for the concrete runs: POSIX paths without normalisation, no child process
  that succeeds, no theme in any frontmatter, and the SHA-1 digests of the two paths used.\<close>

definition posixBasename :: "string \<Rightarrow> string" where
  "posixBasename p = rev (takeWhile (\<lambda>c. c \<noteq> CHR ''/'') (rev p))"

definition posixDirname :: "string \<Rightarrow> string" where
  "posixDirname p =
     (let d = rev (drop 1 (dropWhile (\<lambda>c. c \<noteq> CHR ''/'') (rev p)))
      in if d = [] then (if prefix ''/'' p then ''/'' else ''.'') else d)"

definition posixJoin :: "string list \<Rightarrow> string" where
  "posixJoin segs = joinWith ''/'' (filter (\<lambda>s. s \<noteq> []) segs)"

definition posixResolve :: "string \<Rightarrow> string list \<Rightarrow> string" where
  "posixResolve dir segs =
     foldl (\<lambda>acc s. if prefix ''/'' s then s else if s = [] then acc else acc @ ''/'' @ s) dir segs"

definition demoDigest :: "string \<Rightarrow> string" where
  "demoDigest p =
     (if p = ''/decks/a/intro.md'' then ''3ebc6a993a3718db7950f0d83f21ecb00bf167c1''
      else if p = ''/decks/b/intro.md'' then ''598007d16425efce0b2b244fcfecee9f9874c2ee''
      else ''da39a3ee5e6b4b0d3255bfef95601890afd80709'')"

definition demoRuntime :: runtime where
  "demoRuntime =
     \<lparr>execSync = (\<lambda>command dir f. (Inl (Error ''spawnSync /bin/sh ETIMEDOUT''), f)),
      join = posixJoin, resolve = posixResolve, dirname = posixDirname,
      basename = posixBasename, sha1hex = demoDigest, themeMatch = (\<lambda>text. None),
      env = (\<lambda>var. None), platform = ''linux'', homedir = ''/home/u'',
      wrapperDirname = ''/opt/slides''\<rparr>"

text \<open>A disk that holds the presentations directory and nothing else, and the process as
  it starts.\<close>

definition emptyDisk :: filesystem where
  "emptyDisk =
     \<lparr>files = Map.empty, dirs = {''/home/u/.local/share/precursor/slides''},
      denied = Map.empty\<rparr>"

definition freshState :: state where
  "freshState = \<lparr>fs = emptyDisk, cwd = ''/srv'', presentationName = [], trace = []\<rparr>"

text \<open>A request whose name has a directory part, on the disk above: there is no directory
  \<open>reports\<close> under the presentations directory, and Node's \<open>writeFileSync\<close> does not create
  one, so the write fails with \<open>ENOENT\<close>.\<close>

definition nestedNameDeck :: build_input where
  "nestedNameDeck = sampleDeck\<lparr>name := ''reports/q3''\<rparr>"

definition noReportsDisk :: filesystem where
  "noReportsDisk =
     emptyDisk\<lparr>denied := [''/home/u/.local/share/precursor/slides/reports/q3.md''
                          \<mapsto> ''ENOENT: no such file or directory, open''] \<rparr>"

definition noReportsState :: state where
  "noReportsState = freshState\<lparr>fs := noReportsDisk\<rparr>"

text \<open>A request with the empty name and no slide, and an export request that names nothing.\<close>

definition unnamedDeck :: build_input where
  "unnamedDeck =
     \<lparr>name = [], presentation_title = ''T'', slides = [], theme = None, author = None\<rparr>"

definition bareExport :: export_input where
  "bareExport =
     \<lparr>inputPath = None, exportName = None, outputPath = None, withClicks = None,
      pageRange = None, dark = None\<rparr>"



text \<open>After an export run that reported success: the renderer wrote its default file name
  in the project, nothing is at the requested path, and the requested path cannot be
  written.\<close>

definition renderedDisk :: filesystem where
  "renderedDisk =
     \<lparr>files = [''/proj/slides-export.pdf'' \<mapsto> ''%PDF-1.7''], dirs = {''/proj'', ''/out''},
      denied = [''/out/deck.pdf'' \<mapsto> ''EACCES: permission denied, copyfile'']\<rparr>"

definition renderedState :: state where
  "renderedState = \<lparr>fs = renderedDisk, cwd = ''/proj'', presentationName = [], trace = []\<rparr>"


text \<open>Paths of files that all have the base name \<open>intro.md\<close>, one for each number.\<close>

definition farPath :: "nat \<Rightarrow> string" where
  "farPath n = ''/d'' @ replicate n (CHR ''x'') @ ''/intro.md''"

section \<open>Properties of the deck builder\<close>

subsection \<open>The loop appends one block per slide\<close>

lemma slideCallback_append:
  "slideCallback input sl i md = md @ slideCallback input sl i []"
  by (simp add: slideCallback_def Let_def split: option.splits)

lemma forEachSlide_append:
  "forEachSlide input i sls md = md @ forEachSlide input i sls []"
proof (induction sls arbitrary: i md)
  case Nil
  show ?case by simp
next
  case (Cons sl rest)
  have "forEachSlide input i (sl # rest) md
        = slideCallback input sl i md @ forEachSlide input (Suc i) rest []"
    using Cons.IH [of "Suc i" "slideCallback input sl i md"] by simp
  also have "\<dots> = md @ slideCallback input sl i [] @ forEachSlide input (Suc i) rest []"
    using slideCallback_append [of input sl i md] by simp
  also have "\<dots> = md @ forEachSlide input i (sl # rest) []"
    using Cons.IH [of "Suc i" "slideCallback input sl i []"] by simp
  finally show ?case .
qed

lemma forEachSlide_snoc:
  "forEachSlide input i (sls @ [sl]) md
   = slideCallback input sl (i + length sls) (forEachSlide input i sls md)"
  by (induction sls arbitrary: i md) simp_all

lemma markdownAfter_Suc:
  assumes "i < length (slides input)"
  shows "markdownAfter input (Suc i)
         = markdownAfter input i @ slideCallback input (slides input ! i) i []"
proof -
  have len: "length (take i (slides input)) = i"
    using assms by simp
  have "markdownAfter input (Suc i)
        = forEachSlide input 0 (take i (slides input) @ [slides input ! i]) []"
    unfolding markdownAfter_def using assms by (simp only: take_Suc_conv_app_nth)
  also have "\<dots> = slideCallback input (slides input ! i) (0 + length (take i (slides input)))
                     (forEachSlide input 0 (take i (slides input)) [])"
    by (rule forEachSlide_snoc)
  also have "\<dots> = slideCallback input (slides input ! i) i (markdownAfter input i)"
    unfolding markdownAfter_def len by simp
  finally show ?thesis
    using slideCallback_append [of input "slides input ! i" i "markdownAfter input i"] by simp
qed

lemma forEachSlide_app:
  "forEachSlide input i (xs @ ys) md
   = forEachSlide input (i + length xs) ys (forEachSlide input i xs md)"
  by (induction xs arbitrary: i md) simp_all

lemma markdownAfter_prefix:
  "prefix (markdownAfter input k) (buildMarkdown input)"
proof -
  let ?xs = "take k (slides input)" and ?ys = "drop k (slides input)"
  have "buildMarkdown input = forEachSlide input 0 (?xs @ ?ys) []"
    by (simp add: buildMarkdown_def)
  also have "\<dots> = forEachSlide input (0 + length ?xs) ?ys (markdownAfter input k)"
    unfolding markdownAfter_def by (rule forEachSlide_app)
  also have "\<dots> = markdownAfter input k @ forEachSlide input (0 + length ?xs) ?ys []"
    by (rule forEachSlide_append)
  finally show ?thesis by simp
qed

lemma trim_empty_iff:
  "(trim s = []) = list_all isWhiteSpace s"
proof -
  let ?x = "dropWhile isWhiteSpace s"
  have a: "(?x = []) = list_all isWhiteSpace s"
    by (simp add: dropWhile_eq_Nil_conv list_all_iff)
  have b: "?x = []" if "dropWhile isWhiteSpace (rev ?x) = []"
  proof (cases ?x)
    case Nil
    then show ?thesis .
  next
    case (Cons c cs)
    have "\<not> isWhiteSpace (hd ?x)"
      using Cons hd_dropWhile [of isWhiteSpace s] by simp
    moreover have "hd ?x \<in> set ?x" using Cons by simp
    moreover have "\<forall>c \<in> set ?x. isWhiteSpace c"
      using that by (simp add: dropWhile_eq_Nil_conv)
    ultimately show ?thesis by blast
  qed
  have c: "dropWhile isWhiteSpace (rev ?x) = []" if "?x = []"
    by (simp only: that rev.simps dropWhile.simps)
  have "(trim s = []) = (dropWhile isWhiteSpace (rev ?x) = [])"
    by (simp only: trim_def rev_is_Nil_conv)
  also have "\<dots> = (?x = [])"
    using b c by blast
  finally show ?thesis using a by simp
qed

lemma layoutOr_effective: "layoutOr l d = effectiveLayout l d"
  by (cases l) (auto simp: layoutOr_def effectiveLayout_def trim_empty_iff)

lemma slideCallback_parts:
  "slideCallback input sl i []
   = blockHeader input i sl @ headingLine sl @ rawContent sl
     @ fencedCode sl"
  by (simp add: slideCallback_def blockHeader_def headingLine_def rawContent_def fencedCode_def codeFence_def
      layoutDeclaration_def layoutOr_effective Let_def split: option.splits)

lemma firstSlideHeader_start:
  "prefix (layoutDeclaration 0 (effectiveLayout (layout sl) ''cover'')) (firstSlideHeader input sl)"
  by (simp add: firstSlideHeader_def layoutDeclaration_def layoutOr_effective Let_def
      split: option.splits)

subsection \<open>Counting the layout declarations\<close>

lemma occ_Cons:
  "occurrences slidePattern (c # s)
   = (if c = CHR ''-'' \<and> prefix ''--\<newline>layout:'' s then 1 else 0) + occurrences slidePattern s"
  by (auto simp: slidePattern_def occurrences.simps(2))

declare occurrences.simps(2) [simp del]




lemma nlStart_no_hyphen: "nlStart s \<Longrightarrow> \<not> prefix ''-'' s"
  by (cases s) (auto simp: nlStart_def)






lemma occ_opening:
  "occurrences slidePattern (''---\<newline>layout: '' @ s) = Suc (occurrences slidePattern s)"
  by (simp add: occ_Cons)



















section \<open>Properties of the handlers\<close>

subsection \<open>Actions and their outcomes\<close>

lemma bnd_Inr: "m st = (Inr x, st') \<Longrightarrow> bnd m f st = f x st'"
  by (simp add: bnd_def)

lemma bnd_Inl: "m st = (Inl e, st') \<Longrightarrow> bnd m f st = (Inl e, st')"
  by (simp add: bnd_def)

lemma tryCatch_Inl: "m st = (Inl e, st') \<Longrightarrow> tryCatch m h st = h e st'"
  by (simp add: tryCatch_def)

lemma tryCatch_Inr: "m st = (Inr x, st') \<Longrightarrow> tryCatch m h st = (Inr x, st')"
  by (simp add: tryCatch_def)

lemma exists_io_eq: "exists_io p st = (Inr (existsSync (fs st) p), st)"
  by (simp add: exists_io_def)

lemma presentationName_mkdirSync:
  "presentationName (snd (mkdirSync p st)) = presentationName st"
  by (simp add: mkdirSync_def record_event_def Let_def split: option.splits)

lemma presentationName_writeFileSync:
  "presentationName (snd (writeFileSync p text st)) = presentationName st"
  by (simp add: writeFileSync_def record_event_def Let_def split: sum.splits)

lemma presentationName_ensureDir:
  "presentationName (snd (ensureDir d st)) = presentationName st"
  by (simp add: ensureDir_def bnd_def exists_io_def ret_def presentationName_mkdirSync)

lemma presentationName_build:
  "presentationName (snd (build_complete_presentation N input st)) = name input"
proof (cases "slides input = []")
  case True
  then show ?thesis by (simp add: build_complete_presentation_def)
next
  case False
  let ?st = "st\<lparr>presentationName := name input\<rparr>"
  let ?dir = "presentationsDir N"
  obtain r1 st1 where e: "ensureDir ?dir ?st = (r1, st1)"
    by (cases "ensureDir ?dir ?st")
  have p1: "presentationName st1 = name input"
    using presentationName_ensureDir [of ?dir ?st] e by simp
  show ?thesis
  proof (cases r1)
    case (Inl err)
    then show ?thesis
      using False e p1 by (simp add: build_complete_presentation_def Let_def bnd_def)
  next
    case (Inr u)
    let ?path = "join N [?dir, name input @ ''.md'']"
    obtain r2 st2 where w: "writeFileSync ?path (buildMarkdown input) st1 = (r2, st2)"
      by (cases "writeFileSync ?path (buildMarkdown input) st1")
    have p2: "presentationName st2 = name input"
      using presentationName_writeFileSync [of ?path "buildMarkdown input" st1] w p1 by simp
    show ?thesis
      using False e Inr w p2
      by (cases r2) (simp_all add: build_complete_presentation_def Let_def bnd_def ret_def)
  qed
qed

subsection \<open>The export handler never throws\<close>

lemma export_to_pdf_returns: "\<exists>p. fst (export_to_pdf N input st) = Inr p"
  by (simp add: export_to_pdf_def tryCatch_def ret_def split: prod.splits sum.splits)

lemma exportToPDF_returns: "\<exists>r. fst (exportToPDF N inputFile outputFile options st) = Inr r"
  by (simp add: exportToPDF_def exportCatch_def tryCatch_def ret_def split: prod.splits sum.splits)

subsection \<open>Resolution of the input of an export\<close>

lemma resolveByName_eq:
  assumes "nameToExport x st \<noteq> []"
  shows "resolveByName N x st
         = (if existsSync (fs st) (join N [presentationsDir N, nameToExport x st @ ''.md''])
            then (Inr (join N [presentationsDir N, nameToExport x st @ ''.md'']), st)
            else (Inl (Error (''Presentation file not found: ''
                              @ join N [presentationsDir N, nameToExport x st @ ''.md''])), st))"
  using assms
  by (simp add: resolveByName_def Let_def bnd_def exists_io_def throw_def ret_def)

lemma resolveInput_by_name:
  assumes "\<not> nonBlank (inputPath x)"
  shows "resolveInput N x = resolveByName N x"
  using assms by (cases "inputPath x") (auto simp: resolveInput_def nonBlank_def)


lemma export_to_pdf_input_error:
  assumes "resolveInput N x st = (Inl e, st')"
  shows "export_to_pdf N x st = (Inr (classifyFailure e), st')"
  using assms by (simp add: export_to_pdf_def tryCatch_def bnd_def ret_def)

lemma classify_noName:
  "classifyFailure (Error noNameMessage) = failurePayload (''PDF export failed: '' @ noNameMessage)"
  by code_simp






subsection \<open>The verifying step\<close>


lemma stat_ok: "existsSync (fs st) p \<Longrightarrow> stat p st = (Inr (), st)"
  by (simp add: stat_def)








subsection \<open>Package names and staged names\<close>

lemma trace_copyFileSync:
  "trace (snd (copyFileSync src dst st)) = trace st @ [CopyFile src dst]"
  by (simp add: copyFileSync_def record_event_def Let_def split: option.splits sum.splits)


lemma length_farPath: "length (farPath n) = n + 11"
  unfolding farPath_def by simp

lemma farPath_inj: "farPath m = farPath n \<Longrightarrow> m = n"
proof -
  assume "farPath m = farPath n"
  then have "length (farPath m) = length (farPath n)"
    by (rule arg_cong)
  then show "m = n"
    unfolding length_farPath by simp
qed

lemma posixBasename_under: "posixBasename (dir @ ''/intro.md'') = ''intro.md''"
  unfolding posixBasename_def by simp

lemma posixBasename_farPath: "posixBasename (farPath n) = ''intro.md''"
proof -
  have "farPath n = (''/d'' @ replicate n (CHR ''x'')) @ ''/intro.md''"
    unfolding farPath_def by simp
  then show ?thesis
    by (simp only: posixBasename_under)
qed

lemma finite_short_strings: "finite {s :: string. length s \<le> 8}"
proof -
  have "finite {s :: string. set s \<subseteq> UNIV \<and> length s \<le> 8}"
    by (rule finite_lists_length_le) (rule finite)
  then show ?thesis by simp
qed

lemma digest_prefix_collides:
  fixes h :: "string \<Rightarrow> string"
  shows "\<exists>m n. m \<noteq> n \<and> take 8 (h (farPath m)) = take 8 (h (farPath n))"
proof (rule ccontr)
  let ?g = "\<lambda>n. take 8 (h (farPath n))"
  assume "\<not> (\<exists>m n. m \<noteq> n \<and> ?g m = ?g n)"
  then have i: "inj_on ?g (UNIV :: nat set)"
    unfolding inj_on_def by blast
  have "range ?g \<subseteq> {s. length s \<le> 8}"
    by (rule image_subsetI) simp
  then have "finite (range ?g)"
    using finite_short_strings by (rule finite_subset)
  then have "finite (UNIV :: nat set)"
    using i by (rule finite_imageD)
  then show False by simp
qed

section \<open>The claims on the deck builder\<close>

text \<open>
  Claim C1, as the code has it. The text that the slide at position \<open>i\<close> adds to the document
  begins with a layout declaration: for the first slide \<open>---\<close>, a line feed, \<open>layout: L\<close>
  and a line feed; for a later slide a line feed and the same between two \<open>---\<close> lines. The
  layout \<open>L\<close> is the slide's explicit layout when that holds a character that is not white
  space, and otherwise \<open>cover\<close> for the first slide and \<open>default\<close> for a later one. What has
  been emitted up to a slide stays a prefix of the finished document.
\<close>

theorem C1_layout_declared:
  assumes "i < length (slides input)"
  shows "prefix (markdownAfter input i
                 @ layoutDeclaration i (effectiveLayout (layout (slides input ! i))
                                          (if i = 0 then ''cover'' else ''default'')))
                (markdownAfter input (Suc i))
         \<and> prefix (markdownAfter input (Suc i)) (buildMarkdown input)"
proof -
  let ?sl = "slides input ! i"
  have step: "markdownAfter input (Suc i)
              = markdownAfter input i @ blockHeader input i ?sl @ slideBody ?sl"
    using markdownAfter_Suc [OF assms] by (simp add: slideCallback_parts slideBody_def)
  have "prefix (layoutDeclaration i (effectiveLayout (layout ?sl)
                                       (if i = 0 then ''cover'' else ''default'')))
               (blockHeader input i ?sl)"
    using firstSlideHeader_start [of ?sl input] by (cases "i = 0") (simp_all add: blockHeader_def)
  then have "prefix (layoutDeclaration i (effectiveLayout (layout ?sl)
                                       (if i = 0 then ''cover'' else ''default'')))
               (blockHeader input i ?sl @ slideBody ?sl)"
    by (rule prefix_prefix)
  then show ?thesis
    using markdownAfter_prefix [of input "Suc i"] by (simp add: step)
qed

text \<open>The claim C1 theorem at the second slide of the sample call, which names no layout.\<close>

theorem C1_layout_declared_witness:
  "1 < length (slides sampleDeck)
   \<and> prefix (markdownAfter sampleDeck 1 @ ''\<newline>---\<newline>layout: default\<newline>---\<newline>'')
        (markdownAfter sampleDeck 2)
   \<and> prefix (markdownAfter sampleDeck 2) (buildMarkdown sampleDeck)"
proof -
  have len: "1 < length (slides sampleDeck)"
    by (simp add: sampleDeck_def)
  have decl: "layoutDeclaration 1 (effectiveLayout (layout (slides sampleDeck ! 1))
                (if (1::nat) = 0 then ''cover'' else ''default''))
              = ''\<newline>---\<newline>layout: default\<newline>---\<newline>''"
    by (simp add: sampleDeck_def layoutDeclaration_def effectiveLayout_def)
  show ?thesis
    using C1_layout_declared [OF len] len unfolding decl by (simp add: numeral_2_eq_2)
qed

text \<open>Claim C1 as stated fails for an explicit layout of white space only: the slide's layout
  is one space, and the block declares \<open>cover\<close>, not the space.\<close>

theorem C1_blank_layout_counterexample:
  "layout (hd (slides blankLayoutDeck)) = Some '' ''
   \<and> buildMarkdown blankLayoutDeck
       = ''---\<newline>layout: cover\<newline>title: '' @ [CHR 0x22] @ ''T'' @ [CHR 0x22] @ ''\<newline>---\<newline>''
   \<and> \<not> prefix (''---\<newline>layout: '' @ '' '' @ ''\<newline>'') (buildMarkdown blankLayoutDeck)"
  by (simp add: blankLayoutDeck_def buildMarkdown_def slideCallback_def firstSlideHeader_def
      layoutOr_def trim_def isWhiteSpace_def)




text \<open>
  Claim C3, as the code has it. What the slide at position \<open>i\<close> adds to the document is, in
  this order, its header, the heading line when the title is a non-empty string, the raw
  content when it is a non-empty string, and the fenced code block. The code block is there
  if and only if the code and the code language are both non-empty strings, and its fence
  then carries exactly the code language.
\<close>

theorem C3_slide_emission:
  assumes "i < length (slides input)"
  shows "markdownAfter input (Suc i)
         = markdownAfter input i @ blockHeader input i (slides input ! i)
           @ headingLine (slides input ! i) @ rawContent (slides input ! i)
           @ fencedCode (slides input ! i)
       \<and> (fencedCode (slides input ! i) \<noteq> []
            \<longleftrightarrow> (\<exists>c l. code (slides input ! i) = Some c \<and> codeLanguage (slides input ! i) = Some l
                       \<and> c \<noteq> [] \<and> l \<noteq> []))
       \<and> (\<forall>c l. code (slides input ! i) = Some c \<and> codeLanguage (slides input ! i) = Some l
                  \<and> c \<noteq> [] \<and> l \<noteq> []
             \<longrightarrow> fencedCode (slides input ! i)
                  = ''\<newline>```'' @ l @ ''\<newline>'' @ c @ ''\<newline>```\<newline>'')"
proof -
  let ?sl = "slides input ! i"
  have a: "markdownAfter input (Suc i)
           = markdownAfter input i @ blockHeader input i ?sl @ headingLine ?sl @ rawContent ?sl
             @ fencedCode ?sl"
    using markdownAfter_Suc [OF assms] by (simp add: slideCallback_parts)
  have b: "fencedCode ?sl \<noteq> []
           \<longleftrightarrow> (\<exists>c l. code ?sl = Some c \<and> codeLanguage ?sl = Some l \<and> c \<noteq> [] \<and> l \<noteq> [])"
    by (cases "code ?sl"; cases "codeLanguage ?sl") (simp_all add: fencedCode_def codeFence_def)
  have c: "\<forall>c l. code ?sl = Some c \<and> codeLanguage ?sl = Some l \<and> c \<noteq> [] \<and> l \<noteq> []
             \<longrightarrow> fencedCode ?sl = ''\<newline>```'' @ l @ ''\<newline>'' @ c @ ''\<newline>```\<newline>''"
    by (simp add: fencedCode_def codeFence_def)
  show ?thesis using a b c by blast
qed

text \<open>The claim C3 theorem at the third slide of the sample call, which has code.\<close>

theorem C3_slide_emission_witness:
  "2 < length (slides sampleDeck)
   \<and> markdownAfter sampleDeck 3
     = markdownAfter sampleDeck 2 @ ''\<newline>---\<newline>layout: two-cols\<newline>---\<newline>''
       @ ''\<newline># Code + Notes\<newline>''
       @ ''\<newline>Left: explanation\<newline>Right: code example\<newline>''
       @ ''\<newline>```js\<newline>console.log(1);\<newline>```\<newline>''"
proof -
  have len: "2 < length (slides sampleDeck)"
    by (simp add: sampleDeck_def)
  have sl: "slides sampleDeck ! 2
      = \<lparr>layout = Some ''two-cols'', title = Some ''Code + Notes'',
         content = Some ''Left: explanation\<newline>Right: code example'',
         code = Some ''console.log(1);'', codeLanguage = Some ''js''\<rparr>"
    by (simp add: sampleDeck_def)
  have parts: "blockHeader sampleDeck 2 (slides sampleDeck ! 2)
                 = ''\<newline>---\<newline>layout: two-cols\<newline>---\<newline>''"
      "headingLine (slides sampleDeck ! 2) = ''\<newline># Code + Notes\<newline>''"
      "rawContent (slides sampleDeck ! 2) = ''\<newline>Left: explanation\<newline>Right: code example\<newline>''"
      "fencedCode (slides sampleDeck ! 2) = ''\<newline>```js\<newline>console.log(1);\<newline>```\<newline>''"
    unfolding sl
    by (simp_all add: blockHeader_def layoutDeclaration_def effectiveLayout_def isWhiteSpace_def
        headingLine_def rawContent_def fencedCode_def codeFence_def)
  have "markdownAfter sampleDeck (Suc 2)
        = markdownAfter sampleDeck 2 @ blockHeader sampleDeck 2 (slides sampleDeck ! 2)
          @ headingLine (slides sampleDeck ! 2) @ rawContent (slides sampleDeck ! 2)
          @ fencedCode (slides sampleDeck ! 2)"
    using C3_slide_emission [OF len] by blast
  then show ?thesis
    using len unfolding parts by (simp add: eval_nat_numeral)
qed

text \<open>Claim C3 as stated fails for a code that is present and empty: the code and the code
  language are both there, and the document holds no fence.\<close>

theorem C3_empty_code_counterexample:
  "code (hd (slides emptyCodeDeck)) = Some []
   \<and> codeLanguage (hd (slides emptyCodeDeck)) = Some ''js''
   \<and> buildMarkdown emptyCodeDeck
       = ''---\<newline>layout: cover\<newline>title: '' @ [CHR 0x22] @ ''T'' @ [CHR 0x22] @ ''\<newline>---\<newline>''
   \<and> \<not> includesStr (buildMarkdown emptyCodeDeck) ''```''"
  by (simp add: emptyCodeDeck_def buildMarkdown_def slideCallback_def firstSlideHeader_def
      layoutOr_def)

section \<open>The claims on the build handler\<close>

text \<open>
  Claim C4 at a request the build handler can receive. The name of the presentation has a
  directory part that does not exist under the presentations directory; \<open>writeFileSync\<close>
  throws, nothing in the handler catches it, and the handler ends with the error instead
  of a payload. The export handler, whose body stands in a \<open>try\<close>, always returns a payload
  (lemma \<open>export_to_pdf_returns\<close>).
\<close>

theorem C4_build_write_failure_escapes:
  "fst (build_complete_presentation demoRuntime nestedNameDeck noReportsState)
   = Inl (Error ''ENOENT: no such file or directory, open'')"
  by (simp add: build_complete_presentation_def nestedNameDeck_def sampleDeck_def
      noReportsState_def noReportsDisk_def freshState_def emptyDisk_def demoRuntime_def
      presentationsDir_def getDefaultSlidevDir_def getUserDataDir_def envOr_def posixJoin_def
      ensureDir_def bnd_def exists_io_def existsSync_def ret_def writeFileSync_def
      write_file_def record_event_def Let_def)

text \<open>
  Claim C5. A request with an empty slide array is answered by the failure payload
  (\<open>success\<close> false, a message, no slide, no path), and the file system and the trace of
  effects are what they were: nothing is created, written or run.
\<close>

theorem C5_empty_slides_rejected:
  assumes "slides input = []"
  shows "fst (build_complete_presentation N input st) = Inr noSlidesPayload
         \<and> success noSlidesPayload = False
         \<and> slideCount noSlidesPayload = 0
         \<and> message noSlidesPayload \<noteq> []
         \<and> fs (snd (build_complete_presentation N input st)) = fs st
         \<and> trace (snd (build_complete_presentation N input st)) = trace st"
  using assms by (simp add: build_complete_presentation_def noSlidesPayload_def)

text \<open>The claim C5 theorem at a request without slides, on a disk without files.\<close>

theorem C5_empty_slides_rejected_witness:
  "slides unnamedDeck = []
   \<and> fst (build_complete_presentation demoRuntime unnamedDeck freshState) = Inr noSlidesPayload
   \<and> fs (snd (build_complete_presentation demoRuntime unnamedDeck freshState)) = emptyDisk
   \<and> trace (snd (build_complete_presentation demoRuntime unnamedDeck freshState)) = []"
proof -
  have e: "slides unnamedDeck = []"
    by (simp add: unnamedDeck_def)
  show ?thesis
    using C5_empty_slides_rejected [OF e, of demoRuntime freshState] e
    by (simp add: freshState_def)
qed

text \<open>
  Claim C10, as the code has it. Every call of the build handler, whatever its outcome,
  leaves \<open>presentationName\<close> equal to the name of the request, and a call without slides
  leaves the file system as it was. An export request with no usable input path and no
  usable name, made in the state the build left, resolves its input to the file of that
  name in the presentations directory, provided the name is not the empty string: it finds
  the file, or fails because it is not there.
\<close>

theorem C10_build_sets_export_default:
  assumes "\<not> nonBlank (inputPath x)" and "\<not> truthy (exportName x)"
  shows "presentationName (snd (build_complete_presentation N input st)) = name input
     \<and> (slides input = [] \<longrightarrow> fs (snd (build_complete_presentation N input st)) = fs st)
     \<and> (name input \<noteq> [] \<longrightarrow>
          resolveInput N x (snd (build_complete_presentation N input st))
          = (if existsSync (fs (snd (build_complete_presentation N input st)))
                  (join N [presentationsDir N, name input @ ''.md''])
             then (Inr (join N [presentationsDir N, name input @ ''.md'']),
                   snd (build_complete_presentation N input st))
             else (Inl (Error (''Presentation file not found: ''
                               @ join N [presentationsDir N, name input @ ''.md''])),
                   snd (build_complete_presentation N input st))))"
proof -
  let ?st = "snd (build_complete_presentation N input st)"
  have pn: "presentationName ?st = name input"
    by (rule presentationName_build)
  have nm: "nameToExport x ?st = name input"
    using assms(2) pn by (cases "exportName x") (simp_all add: nameToExport_def)
  have frame: "slides input = [] \<longrightarrow> fs ?st = fs st"
    by (simp add: build_complete_presentation_def)
  have res: "name input \<noteq> [] \<longrightarrow>
          resolveInput N x ?st
          = (if existsSync (fs ?st) (join N [presentationsDir N, name input @ ''.md''])
             then (Inr (join N [presentationsDir N, name input @ ''.md'']), ?st)
             else (Inl (Error (''Presentation file not found: ''
                               @ join N [presentationsDir N, name input @ ''.md''])), ?st))"
    using resolveByName_eq [of x ?st N] nm resolveInput_by_name [OF assms(1), of N] by simp
  show ?thesis using pn frame res by blast
qed

text \<open>The claim C10 theorem at a rejected build named \<open>t1\<close>, followed by an export that names
  nothing: the export looks for \<open>t1.md\<close>, which was never written.\<close>

theorem C10_build_sets_export_default_witness:
  "\<not> nonBlank (inputPath bareExport) \<and> \<not> truthy (exportName bareExport)
   \<and> slides (unnamedDeck\<lparr>name := ''t1''\<rparr>) = []
   \<and> presentationName (snd (build_complete_presentation demoRuntime (unnamedDeck\<lparr>name := ''t1''\<rparr>)
                               freshState)) = ''t1''
   \<and> fst (resolveInput demoRuntime bareExport
            (snd (build_complete_presentation demoRuntime (unnamedDeck\<lparr>name := ''t1''\<rparr>) freshState)))
       = Inl (Error ''Presentation file not found: /home/u/.local/share/precursor/slides/t1.md'')"
proof -
  let ?d = "unnamedDeck\<lparr>name := ''t1''\<rparr>"
  let ?st = "snd (build_complete_presentation demoRuntime ?d freshState)"
  have h1: "\<not> nonBlank (inputPath bareExport)" and h2: "\<not> truthy (exportName bareExport)"
    by (simp_all add: bareExport_def nonBlank_def)
  have e: "slides ?d = []" and n: "name ?d = ''t1''"
    by (simp_all add: unnamedDeck_def)
  have c: "join demoRuntime [presentationsDir demoRuntime, ''t1'' @ ''.md'']
           = ''/home/u/.local/share/precursor/slides/t1.md''"
    by (simp add: demoRuntime_def presentationsDir_def getDefaultSlidevDir_def
        getUserDataDir_def envOr_def posixJoin_def)
  have f: "fs ?st = emptyDisk"
    using C10_build_sets_export_default [OF h1 h2, of demoRuntime ?d freshState] e
    by (simp add: freshState_def)
  have ne: "\<not> existsSync emptyDisk ''/home/u/.local/share/precursor/slides/t1.md''"
    by (simp add: existsSync_def emptyDisk_def)
  show ?thesis
    using C10_build_sets_export_default [OF h1 h2, of demoRuntime ?d freshState] h1 h2 e n c f ne
    by simp
qed

text \<open>Claim C10 as stated fails for the empty name: the rejected build sets the name to the
  empty string, and the export that follows finds no name to resolve against.\<close>

theorem C10_empty_name_counterexample:
  "name unnamedDeck = []
   \<and> presentationName (snd (build_complete_presentation demoRuntime unnamedDeck freshState)) = []
   \<and> fst (export_to_pdf demoRuntime bareExport
            (snd (build_complete_presentation demoRuntime unnamedDeck freshState)))
       = Inr (failurePayload (''PDF export failed: '' @ noNameMessage))"
proof -
  let ?st = "snd (build_complete_presentation demoRuntime unnamedDeck freshState)"
  have n: "name unnamedDeck = []"
    by (simp add: unnamedDeck_def)
  have pn: "presentationName ?st = []"
    using presentationName_build [of demoRuntime unnamedDeck freshState] n by simp
  have "resolveInput demoRuntime bareExport ?st = (Inl (Error noNameMessage), ?st)"
    using pn
    by (simp add: resolveInput_def bareExport_def resolveByName_def nameToExport_def throw_def)
  then show ?thesis
    using n pn export_to_pdf_input_error [of demoRuntime bareExport ?st "Error noNameMessage" ?st]
    by (simp add: classify_noName)
qed

section \<open>The claims on the export\<close>








text \<open>
  Claim C9, as the code has it. The staged name is made of the path alone: the base name
  without its \<open>.md\<close>, a hyphen, the first eight characters of the digest of the path, and
  \<open>.md\<close>. Two paths with the same base name get the same staged name if and only if the
  first eight characters of their digests agree. In every state in which the \<open>slides\<close>
  folder is there or can be made, whatever the files hold, the staging step copies the
  input to the file of that staged name in the \<open>slides\<close> folder of the project.
\<close>

theorem C9_staged_name_from_path:
  "stagedMdName N p = stripMd (basename N p) @ ''-'' @ take 8 (sha1hex N p) @ ''.md''
   \<and> (basename N p = basename N q
        \<longrightarrow> (stagedMdName N p = stagedMdName N q)
            = (take 8 (sha1hex N p) = take 8 (sha1hex N q)))
   \<and> (\<forall>st. fst (ensureDir (join N [root, ''slides'']) st) = Inr ()
        \<longrightarrow> last (trace (snd (staging N root p st)))
            = CopyFile p (join N [root, join N [''slides'', stagedMdName N p]]))"
proof -
  have name: "stagedMdName N p = stripMd (basename N p) @ ''-'' @ take 8 (sha1hex N p) @ ''.md''"
    by (simp add: stagedMdName_def Let_def)
  have name_q: "stagedMdName N q = stripMd (basename N q) @ ''-'' @ take 8 (sha1hex N q) @ ''.md''"
    by (simp add: stagedMdName_def Let_def)
  have same: "basename N p = basename N q
        \<longrightarrow> (stagedMdName N p = stagedMdName N q)
            = (take 8 (sha1hex N p) = take 8 (sha1hex N q))"
    unfolding name name_q by simp
  have copy: "last (trace (snd (staging N root p st)))
            = CopyFile p (join N [root, join N [''slides'', stagedMdName N p]])"
    if made: "fst (ensureDir (join N [root, ''slides'']) st) = Inr ()" for st
  proof -
    obtain st1 where e: "ensureDir (join N [root, ''slides'']) st = (Inr (), st1)"
      using made by (cases "ensureDir (join N [root, ''slides'']) st") auto
    have "staging N root p st
          = copyFileSync p (join N [root, join N [''slides'', stagedMdName N p]]) st1"
      using e by (simp add: staging_def Let_def bnd_def)
    then show ?thesis
      by (simp add: trace_copyFileSync)
  qed
  show ?thesis using name same copy by blast
qed

text \<open>The claim C9 theorem at two files \<open>intro.md\<close> in different directories, with their
  SHA-1 digests: the staged names differ.\<close>

theorem C9_staged_name_witness:
  "basename demoRuntime ''/decks/a/intro.md'' = basename demoRuntime ''/decks/b/intro.md''
   \<and> stagedMdName demoRuntime ''/decks/a/intro.md'' = ''intro-3ebc6a99.md''
   \<and> stagedMdName demoRuntime ''/decks/b/intro.md'' = ''intro-598007d1.md''
   \<and> stagedMdName demoRuntime ''/decks/a/intro.md'' \<noteq> stagedMdName demoRuntime ''/decks/b/intro.md''
   \<and> fst (ensureDir (join demoRuntime [''/proj'', ''slides'']) renderedState) = Inr ()
   \<and> last (trace (snd (staging demoRuntime ''/proj'' ''/decks/a/intro.md'' renderedState)))
       = CopyFile ''/decks/a/intro.md'' ''/proj/slides/intro-3ebc6a99.md''"
proof -
  have b: "basename demoRuntime ''/decks/a/intro.md'' = ''intro.md''"
      "basename demoRuntime ''/decks/b/intro.md'' = ''intro.md''"
    by (simp_all add: demoRuntime_def posixBasename_def)
  have s: "stripMd ''intro.md'' = ''intro''"
    by code_simp
  have h: "take 8 (sha1hex demoRuntime ''/decks/a/intro.md'') = ''3ebc6a99''"
      "take 8 (sha1hex demoRuntime ''/decks/b/intro.md'') = ''598007d1''"
    by (simp_all add: demoRuntime_def demoDigest_def)
  have j: "join demoRuntime [''/proj'', ''slides''] = ''/proj/slides''"
      "join demoRuntime [''slides'', ''intro-3ebc6a99.md''] = ''slides/intro-3ebc6a99.md''"
      "join demoRuntime [''/proj'', ''slides/intro-3ebc6a99.md''] = ''/proj/slides/intro-3ebc6a99.md''"
    by (simp_all add: demoRuntime_def posixJoin_def)
  have e: "fst (ensureDir ''/proj/slides'' renderedState) = Inr ()"
    by (simp add: ensureDir_def bnd_def exists_io_def existsSync_def ret_def mkdirSync_def
        record_event_def renderedState_def renderedDisk_def Let_def)
  show ?thesis
    using C9_staged_name_from_path
            [of demoRuntime "''/decks/a/intro.md''" "''/decks/b/intro.md''" "''/proj''"]
      C9_staged_name_from_path
            [of demoRuntime "''/decks/b/intro.md''" "''/decks/a/intro.md''" "''/proj''"]
      b s h j e
    by simp
qed

text \<open>Claim C9 as stated fails whatever the digest function is: there are infinitely many
  paths with one base name and finitely many strings of eight characters, so two different
  paths with the same base name get the same staged name.\<close>

theorem C9_truncated_digest_counterexample:
  "\<forall>h :: string \<Rightarrow> string. \<exists>p q. p \<noteq> q
         \<and> basename (demoRuntime\<lparr>sha1hex := h\<rparr>) p = basename (demoRuntime\<lparr>sha1hex := h\<rparr>) q
         \<and> stagedMdName (demoRuntime\<lparr>sha1hex := h\<rparr>) p
           = stagedMdName (demoRuntime\<lparr>sha1hex := h\<rparr>) q"
proof
  fix h :: "string \<Rightarrow> string"
  obtain m n where mn: "m \<noteq> n" and eq: "take 8 (h (farPath m)) = take 8 (h (farPath n))"
    using digest_prefix_collides [of h] by blast
  have "farPath m \<noteq> farPath n"
    using mn farPath_inj by blast
  moreover have "basename (demoRuntime\<lparr>sha1hex := h\<rparr>) (farPath m)
      = basename (demoRuntime\<lparr>sha1hex := h\<rparr>) (farPath n)"
    unfolding demoRuntime_def by (simp add: posixBasename_farPath)
  moreover have "stagedMdName (demoRuntime\<lparr>sha1hex := h\<rparr>) (farPath m)
      = stagedMdName (demoRuntime\<lparr>sha1hex := h\<rparr>) (farPath n)"
    unfolding stagedMdName_def demoRuntime_def using eq by (simp add: posixBasename_farPath)
  ultimately show "\<exists>p q. p \<noteq> q
         \<and> basename (demoRuntime\<lparr>sha1hex := h\<rparr>) p = basename (demoRuntime\<lparr>sha1hex := h\<rparr>) q
         \<and> stagedMdName (demoRuntime\<lparr>sha1hex := h\<rparr>) p
           = stagedMdName (demoRuntime\<lparr>sha1hex := h\<rparr>) q"
    by blast
qed


end
